theory Spec2Isabelle
  imports Complex_Main
begin

section \<open>News scrapers (aggregator/scrapers.py)\<close>

text \<open>
  A shallow embedding of \<^verbatim>\<open>src/aggregator/scrapers.py\<close>. Python functions that read the
  network, the clock, the random generator or the logger become functions that take a
  \<open>world\<close> and return their outcome with the new world. An outcome is a value of
  \<open>exn + 'a\<close>: \<open>Inl e\<close> is "the call raised \<open>e\<close>", \<open>Inr v\<close> is "the call returned \<open>v\<close>".
\<close>

subsection \<open>Exceptions\<close>

text \<open>
  The instances of Python's \<^verbatim>\<open>Exception\<close> that the source tells apart, each with its
  message: \<^verbatim>\<open>requests.exceptions.RequestException\<close> (caught in \<^verbatim>\<open>_make_request\<close>),
  \<^verbatim>\<open>ValueError\<close> (caught in \<^verbatim>\<open>_parse_date\<close>), and any other instance of \<^verbatim>\<open>Exception\<close>.
  Every handler of the source is \<^verbatim>\<open>except Exception\<close> or narrower, and \<open>exn\<close> holds
  instances of \<^verbatim>\<open>Exception\<close> only.
\<close>

datatype exn = RequestException string | ValueError string | OtherException string

fun is_RequestException :: "exn \<Rightarrow> bool" where
  "is_RequestException (RequestException _) = True"
| "is_RequestException _ = False"

fun is_ValueError :: "exn \<Rightarrow> bool" where
  "is_ValueError (ValueError _) = True"
| "is_ValueError _ = False"

fun str_exn :: "exn \<Rightarrow> string" where
  "str_exn (RequestException m) = m"
| "str_exn (ValueError m) = m"
| "str_exn (OtherException m) = m"

subsection \<open>Strings\<close>

text \<open>
  Strings are lists of 8-bit characters; the model reads Python strings as ASCII text.
  \<open>str_nat\<close> is \<^verbatim>\<open>str\<close> on a non-negative integer, as an f-string renders it.
\<close>

definition digit_char :: "nat \<Rightarrow> char" where
  "digit_char n = ''0123456789'' ! n"

fun str_nat :: "nat \<Rightarrow> string" where
  "str_nat n = (if n < 10 then [digit_char n] else str_nat (n div 10) @ [digit_char (n mod 10)])"

declare str_nat.simps [simp del]

definition is_digit :: "char \<Rightarrow> bool" where
  "is_digit c = (c \<in> set ''0123456789'')"

definition digit_val :: "char \<Rightarrow> nat" where
  "digit_val c = length (takeWhile (\<lambda>d. d \<noteq> c) ''0123456789'')"

text \<open>The ASCII characters for which \<^verbatim>\<open>str.isspace\<close> holds.\<close>

definition is_space :: "char \<Rightarrow> bool" where
  "is_space c = (c \<in> set [CHR '' '', CHR 0x09, CHR 0x0A, CHR 0x0B, CHR 0x0C, CHR 0x0D,
                           CHR 0x1C, CHR 0x1D, CHR 0x1E, CHR 0x1F])"

text \<open>\<^verbatim>\<open>str.strip()\<close>: whitespace removed at both ends.\<close>

definition strip :: "string \<Rightarrow> string" where
  "strip s = rev (dropWhile is_space (rev (dropWhile is_space s)))"

text \<open>\<^verbatim>\<open>int(s)\<close> on a string of decimal digits with optional surrounding whitespace.\<close>

definition int_of_str :: "string \<Rightarrow> nat" where
  "int_of_str s = foldl (\<lambda>n c. 10 * n + digit_val c) 0 (strip s)"

text \<open>The maximal runs of non-whitespace characters of a string (\<^verbatim>\<open>re.findall(r"\S+", s)\<close>).\<close>

fun tokens_acc :: "string \<Rightarrow> string \<Rightarrow> string list" where
  "tokens_acc cur [] = (if cur = [] then [] else [cur])"
| "tokens_acc cur (c # cs) =
     (if is_space c then (if cur = [] then tokens_acc [] cs else cur # tokens_acc [] cs)
      else tokens_acc (cur @ [c]) cs)"

definition tokens :: "string \<Rightarrow> string list" where
  "tokens s = tokens_acc [] s"

subsection \<open>Dates and times\<close>

text \<open>
  A \<^verbatim>\<open>datetime.datetime\<close>: its calendar fields and its \<^verbatim>\<open>tzinfo\<close>, \<open>None\<close> for a naive
  value and \<open>Some name\<close> for an aware one.
\<close>

record datetime =
  year :: nat
  month :: nat
  day :: nat
  hour :: nat
  minute :: nat
  second :: nat
  microsecond :: nat
  tzinfo :: "string option"

definition is_leap :: "nat \<Rightarrow> bool" where
  "is_leap y = (y mod 4 = 0 \<and> (y mod 100 \<noteq> 0 \<or> y mod 400 = 0))"

definition days_in_month :: "nat \<Rightarrow> nat \<Rightarrow> nat" where
  "days_in_month y m =
     (if m = 2 \<and> is_leap y then 29
      else [31, 28, 31, 30, 31, 30, 31, 31, 30, 31, 30, 31] ! (m - 1))"

text \<open>
  The constructor \<^verbatim>\<open>datetime(year, month, day)\<close>: midnight, naive; \<^verbatim>\<open>ValueError\<close> outside
  \<^verbatim>\<open>MINYEAR..MAXYEAR\<close>, outside the twelve months or outside the month's days.
\<close>

definition make_datetime :: "nat \<Rightarrow> nat \<Rightarrow> nat \<Rightarrow> exn + datetime" where
  "make_datetime y m d =
     (if y < 1 \<or> 9999 < y then Inl (ValueError ''year is out of range'')
      else if m < 1 \<or> 12 < m then Inl (ValueError ''month must be in 1..12'')
      else if d < 1 \<or> days_in_month y m < d then Inl (ValueError ''day is out of range for month'')
      else Inr \<lparr>year = y, month = m, day = d, hour = 0, minute = 0, second = 0,
                microsecond = 0, tzinfo = None\<rparr>)"



subsubsection \<open>strptime\<close>

text \<open>
  \<^verbatim>\<open>datetime.strptime\<close> for the directives the source uses. A format is compiled to a
  regular expression and matched at the start of the input; here a format is its list of
  directives, and each directive lists the prefixes it can match, in the order of the
  alternatives of its regular expression:
  \<^verbatim>\<open>%Y\<close> is \<^verbatim>\<open>\d\d\d\d\<close>, \<^verbatim>\<open>%m\<close> is \<^verbatim>\<open>1[0-2]|0[1-9]|[1-9]\<close>,
  \<^verbatim>\<open>%d\<close> is \<^verbatim>\<open>3[0-1]|[1-2]\d|0[1-9]|[1-9]| [1-9]\<close>, any other character is itself.
\<close>

datatype directive = Dir_Y | Dir_m | Dir_d | Lit char

fun parse_format :: "string \<Rightarrow> directive list" where
  "parse_format [] = []"
| "parse_format [c] = [Lit c]"
| "parse_format (c # c' # cs) =
     (if c = CHR ''%'' \<and> c' = CHR ''Y'' then Dir_Y # parse_format cs
      else if c = CHR ''%'' \<and> c' = CHR ''m'' then Dir_m # parse_format cs
      else if c = CHR ''%'' \<and> c' = CHR ''d'' then Dir_d # parse_format cs
      else Lit c # parse_format (c' # cs))"

text \<open>One alternative: a sequence of character classes, matched against a prefix.\<close>

fun match_classes :: "(char \<Rightarrow> bool) list \<Rightarrow> string \<Rightarrow> (string \<times> string) list" where
  "match_classes [] s = [([], s)]"
| "match_classes (p # ps) [] = []"
| "match_classes (p # ps) (c # cs) =
     (if p c then map (\<lambda>(m, r). (c # m, r)) (match_classes ps cs) else [])"

definition one_of :: "string \<Rightarrow> char \<Rightarrow> bool" where
  "one_of cs c = (c \<in> set cs)"

definition alternatives :: "directive \<Rightarrow> (char \<Rightarrow> bool) list list" where
  "alternatives d =
     (case d of
        Dir_Y \<Rightarrow> [[is_digit, is_digit, is_digit, is_digit]]
      | Dir_m \<Rightarrow> [[one_of ''1'', one_of ''012''], [one_of ''0'', one_of ''123456789''],
                  [one_of ''123456789'']]
      | Dir_d \<Rightarrow> [[one_of ''3'', one_of ''01''], [one_of ''12'', is_digit],
                  [one_of ''0'', one_of ''123456789''], [one_of ''123456789''],
                  [one_of '' '', one_of ''123456789'']]
      | Lit c \<Rightarrow> [[one_of [c]]])"

text \<open>
  Backtracking match of a directive list: all ways to match a prefix, as
  (groups, unmatched rest), the regular expression engine's first choice first.
\<close>

fun match_format :: "directive list \<Rightarrow> string \<Rightarrow> ((directive \<times> string) list \<times> string) list" where
  "match_format [] s = [([], s)]"
| "match_format (d # ds) s =
     concat (map (\<lambda>(m, r). map (\<lambda>(gs, r'). ((d, m) # gs, r')) (match_format ds r))
                 (concat (map (\<lambda>alt. match_classes alt s) (alternatives d))))"

definition group_of :: "directive \<Rightarrow> (directive \<times> string) list \<Rightarrow> string" where
  "group_of d gs = (case map_of gs d of Some m \<Rightarrow> m | None \<Rightarrow> [])"

definition strptime :: "string \<Rightarrow> string \<Rightarrow> exn + datetime" where
  "strptime date_string fmt =
     (case match_format (parse_format fmt) date_string of
        [] \<Rightarrow> Inl (ValueError ''time data does not match format'')
      | (gs, rest) # _ \<Rightarrow>
          if rest \<noteq> [] then Inl (ValueError ''unconverted data remains'')
          else make_datetime (int_of_str (group_of Dir_Y gs)) (int_of_str (group_of Dir_m gs))
                 (int_of_str (group_of Dir_d gs)))"

subsection \<open>Parsed documents\<close>

text \<open>
  The tree that \<^verbatim>\<open>BeautifulSoup(response.content, 'lxml')\<close> builds: a tag with its name,
  its attributes and its children, or a string. The operations are the ones the source
  calls. \<^verbatim>\<open>find_all\<close> lists the matching descendants in document order, \<open>find_first\<close> (\<^verbatim>\<open>find\<close>) is
  its first element or \<^verbatim>\<open>None\<close>. A keyword filter compares the attribute's value with the
  given string; for \<^verbatim>\<open>class_\<close> it also accepts any one of the whitespace-separated classes.
\<close>

datatype node = Tag string "(string \<times> string) list" "node list" | NavigableString string

fun descendants :: "node \<Rightarrow> node list" where
  "descendants (Tag name attrs children) = concat (map (\<lambda>c. c # descendants c) children)"
| "descendants (NavigableString s) = []"

definition attr_matches :: "(string \<times> string) list \<Rightarrow> string \<times> string \<Rightarrow> bool" where
  "attr_matches attrs kw =
     (case map_of attrs (fst kw) of
        None \<Rightarrow> False
      | Some v \<Rightarrow> if fst kw = ''class'' then v = snd kw \<or> snd kw \<in> set (tokens v)
                  else v = snd kw)"

fun matches :: "string \<Rightarrow> (string \<times> string) list \<Rightarrow> node \<Rightarrow> bool" where
  "matches name kwargs (Tag n attrs children) = (n = name \<and> list_all (attr_matches attrs) kwargs)"
| "matches name kwargs (NavigableString s) = False"

definition find_all :: "node \<Rightarrow> string \<Rightarrow> (string \<times> string) list \<Rightarrow> node list" where
  "find_all el name kwargs = filter (matches name kwargs) (descendants el)"

definition find_first :: "node \<Rightarrow> string \<Rightarrow> (string \<times> string) list \<Rightarrow> node option" where
  "find_first el name kwargs = (case find_all el name kwargs of [] \<Rightarrow> None | x # _ \<Rightarrow> Some x)"

text \<open>
  \<^verbatim>\<open>get_text(strip=True)\<close>: the strings below the node, each stripped, the empty ones
  left out, joined without a separator.
\<close>

fun strings :: "node \<Rightarrow> string list" where
  "strings (NavigableString s) = [s]"
| "strings (Tag name attrs children) = concat (map strings children)"

definition get_text_strip :: "node \<Rightarrow> string" where
  "get_text_strip n = concat (filter (\<lambda>s. s \<noteq> []) (map strip (strings n)))"

text \<open>\<^verbatim>\<open>tag.get(key, default)\<close>.\<close>

fun get_attr :: "node \<Rightarrow> string \<Rightarrow> string \<Rightarrow> string" where
  "get_attr (Tag name attrs children) key dflt =
     (case map_of attrs key of Some v \<Rightarrow> v | None \<Rightarrow> dflt)"
| "get_attr (NavigableString s) key dflt = dflt"

subsection \<open>The world: network, clock, random generator, sleep, log\<close>

text \<open>
  A \<^verbatim>\<open>requests.Response\<close>: its status code and its body, the body given as the tree
  the parser builds from it.
\<close>

record response =
  status_code :: nat
  content :: node

datatype level = INFO | WARNING | ERROR

text \<open>
  The world holds what the code reads from outside and what it leaves behind:
  \<^item> \<open>USE_TZ\<close>: Django's setting of that name, which \<^verbatim>\<open>timezone.now()\<close> consults;
  \<^item> \<open>session_get\<close>: what the \<open>k\<close>-th call of \<^verbatim>\<open>session.get\<close> does for a URL and a
    timeout (a response, or an exception), with \<open>gets\<close> the number of calls made;
  \<^item> \<open>wall_clock\<close>: the calendar fields of the \<open>k\<close>-th reading of the clock, with
    \<open>clock_reads\<close> the number of readings made;
  \<^item> \<open>rng\<close>: the \<open>k\<close>-th raw draw of the random generator, with \<open>draws\<close> the number
    of draws made;
  \<^item> \<open>slept\<close>: the arguments of \<^verbatim>\<open>time.sleep\<close> so far, in seconds;
  \<^item> \<open>log_records\<close>: the log records emitted so far.
\<close>

record world =
  USE_TZ :: bool
  session_get :: "string \<Rightarrow> nat \<Rightarrow> nat \<Rightarrow> exn + response"
  wall_clock :: "nat \<Rightarrow> datetime"
  rng :: "nat \<Rightarrow> nat"
  gets :: nat
  clock_reads :: nat
  draws :: nat
  slept :: "real list"
  log_records :: "(level \<times> string) list"

definition logger :: "level \<Rightarrow> string \<Rightarrow> world \<Rightarrow> world" where
  "logger lv msg w = w\<lparr>log_records := log_records w @ [(lv, msg)]\<rparr>"

definition time_sleep :: "real \<Rightarrow> world \<Rightarrow> world" where
  "time_sleep delay w = w\<lparr>slept := slept w @ [delay]\<rparr>"

text \<open>
  \<^verbatim>\<open>random.uniform(a, b)\<close> is \<^verbatim>\<open>a + (b - a) * random()\<close>, with \<^verbatim>\<open>random()\<close> in [0, 1):
  \<open>unit_draw w k\<close> is what \<^verbatim>\<open>random()\<close> makes of the \<open>k\<close>-th raw draw, 53 bits over \<open>2^53\<close>.
\<close>

definition unit_draw :: "world \<Rightarrow> nat \<Rightarrow> real" where
  "unit_draw w k = real (rng w k mod 2 ^ 53) / 2 ^ 53"

definition random_uniform :: "real \<Rightarrow> real \<Rightarrow> world \<Rightarrow> real \<times> world" where
  "random_uniform a b w = (a + (b - a) * unit_draw w (draws w), w\<lparr>draws := draws w + 1\<rparr>)"


text \<open>
  \<^verbatim>\<open>django.utils.timezone.now()\<close>: \<^verbatim>\<open>datetime.now(tz=timezone.utc if settings.USE_TZ else None)\<close>.
\<close>

definition timezone_now :: "world \<Rightarrow> datetime \<times> world" where
  "timezone_now w =
     ((wall_clock w (clock_reads w))\<lparr>tzinfo := (if USE_TZ w then Some ''UTC'' else None)\<rparr>,
      w\<lparr>clock_reads := clock_reads w + 1\<rparr>)"

text \<open>\<^verbatim>\<open>self.session.get(url, headers=self.headers, timeout=timeout)\<close>.\<close>

definition session_get_call :: "string \<Rightarrow> nat \<Rightarrow> world \<Rightarrow> (exn + response) \<times> world" where
  "session_get_call url timeout w = (session_get w url timeout (gets w), w\<lparr>gets := gets w + 1\<rparr>)"

text \<open>\<^verbatim>\<open>response.raise_for_status()\<close>: \<^verbatim>\<open>HTTPError\<close>, a \<^verbatim>\<open>RequestException\<close>, for a 4xx or 5xx status.\<close>

definition raise_for_status :: "response \<Rightarrow> exn + unit" where
  "raise_for_status r =
     (if 400 \<le> status_code r \<and> status_code r < 600
      then Inl (RequestException (str_nat (status_code r) @ '' Error''))
      else Inr ())"

text \<open>The truth value of a response (\<^verbatim>\<open>Response.__bool__\<close>) is \<^verbatim>\<open>response.ok\<close>.\<close>

definition ok :: "response \<Rightarrow> bool" where
  "ok r = (case raise_for_status r of Inl _ \<Rightarrow> False | Inr _ \<Rightarrow> True)"

subsection \<open>BaseScraper\<close>

definition max_retries :: nat where
  "max_retries = 3"

definition base_delay :: nat where
  "base_delay = 1"

text \<open>The part of the delay that does not come from the random generator.\<close>

definition backoff :: "nat \<Rightarrow> nat" where
  "backoff attempt = base_delay * 2 ^ attempt"

text \<open>
  \<^verbatim>\<open>_make_request\<close>: the body of the \<^verbatim>\<open>for attempt in range(max_retries)\<close> loop, run over
  the attempts that remain. Leaving the loop without a \<^verbatim>\<open>return\<close> ends the function,
  which then returns \<^verbatim>\<open>None\<close>. An exception that is no \<^verbatim>\<open>RequestException\<close> is not
  caught.
\<close>

fun make_request_attempts ::
  "string \<Rightarrow> nat \<Rightarrow> nat list \<Rightarrow> world \<Rightarrow> (exn + response option) \<times> world" where
  "make_request_attempts url timeout [] w = (Inr None, w)"
| "make_request_attempts url timeout (attempt # rest) w =
     (let (got, w1) = session_get_call url timeout w;
          tried = (case got of
                     Inl e \<Rightarrow> Inl e
                   | Inr response \<Rightarrow>
                       (case raise_for_status response of
                          Inl e \<Rightarrow> Inl e
                        | Inr _ \<Rightarrow> Inr response))
      in case tried of
           Inr response \<Rightarrow> (Inr (Some response), w1)
         | Inl e \<Rightarrow>
             if is_RequestException e then
               (let w2 = logger WARNING
                           (''Request attempt '' @ str_nat (attempt + 1) @ '' failed for '' @ url
                            @ '': '' @ str_exn e) w1
                in if attempt < max_retries - 1 then
                     (let (jitter, w3) = random_uniform 0 1 w2;
                          delay = real (backoff attempt) + jitter;
                          w4 = time_sleep delay w3
                      in make_request_attempts url timeout rest w4)
                   else (Inr None, logger ERROR (''All retry attempts failed for '' @ url) w2))
             else (Inl e, w1))"

definition make_request :: "string \<Rightarrow> nat \<Rightarrow> world \<Rightarrow> (exn + response option) \<times> world" where
  "make_request url timeout w = make_request_attempts url timeout [0..<max_retries] w"

text \<open>
  \<^verbatim>\<open>_parse_date\<close>: the inner loop over the formats, where \<^verbatim>\<open>ValueError\<close> moves on to the
  next format and any other exception leaves the loop; then the outer handler, which logs
  a warning and returns the current time.
\<close>

definition date_formats :: "string list" where
  "date_formats = [''%Y-%m-%d'', ''%d/%m/%Y'', ''%m/%d/%Y'']"

fun parse_date_formats :: "string \<Rightarrow> string list \<Rightarrow> world \<Rightarrow> (exn + datetime) \<times> world" where
  "parse_date_formats date_str [] w = (let (now, w1) = timezone_now w in (Inr now, w1))"
| "parse_date_formats date_str (fmt # fmts) w =
     (case strptime date_str fmt of
        Inr dt \<Rightarrow> (Inr dt, w)
      | Inl e \<Rightarrow> if is_ValueError e then parse_date_formats date_str fmts w else (Inl e, w))"

definition parse_date :: "string \<Rightarrow> world \<Rightarrow> (exn + datetime) \<times> world" where
  "parse_date date_str w =
     (case parse_date_formats date_str date_formats w of
        (Inr dt, w1) \<Rightarrow> (Inr dt, w1)
      | (Inl e, w1) \<Rightarrow>
          (let w2 = logger WARNING
                      (''Failed to parse date '' @ [CHR 0x27] @ date_str @ [CHR 0x27] @ '': ''
                       @ str_exn e) w1;
               (now, w3) = timezone_now w2
           in (Inr now, w3)))"

subsection \<open>Article records\<close>

text \<open>The dictionary every scraper builds, with its five keys.\<close>

record article =
  title :: string
  summary :: string
  url :: string
  source :: string
  published_at :: datetime


subsection \<open>InShortsScaper and HindustanTimesScaper\<close>









subsection \<open>Mock scrapers and the registry\<close>









subsection \<open>Observations used in the statements\<close>

text \<open>
  An attempt of \<^verbatim>\<open>_make_request\<close> fails at transport level when \<^verbatim>\<open>session.get\<close> raises a
  \<^verbatim>\<open>RequestException\<close> or answers with a status that \<^verbatim>\<open>raise_for_status\<close> rejects.
\<close>

definition attempt_fails :: "world \<Rightarrow> string \<Rightarrow> nat \<Rightarrow> nat \<Rightarrow> bool" where
  "attempt_fails w addr timeout k =
     (case session_get w addr timeout k of
        Inl e \<Rightarrow> is_RequestException e
      | Inr r \<Rightarrow> \<not> ok r)"

text \<open>What one attempt comes to: the response that passed the status check, or the exception.\<close>

definition tried :: "string \<Rightarrow> nat \<Rightarrow> world \<Rightarrow> exn + response" where
  "tried addr t w =
     (case session_get w addr t (gets w) of
        Inl e \<Rightarrow> Inl e
      | Inr response \<Rightarrow> (case raise_for_status response of Inl e \<Rightarrow> Inl e | Inr _ \<Rightarrow> Inr response))"





definition HT_fields :: "node \<Rightarrow> (string \<times> string \<times> string \<times> string) option" where
  "HT_fields c =
     (case (find_first c ''h3'' [(''class'', ''hdg3'')], find_first c ''a'' []) of
        (Some t, Some l) \<Rightarrow>
          Some (get_text_strip t,
                (case find_first c ''p'' [(''class'', ''anch'')] of
                   Some s \<Rightarrow> get_text_strip s | None \<Rightarrow> get_text_strip t),
                get_attr l ''href'' [], ''hindustan_times'')
      | _ \<Rightarrow> None)"



subsection \<open>Example worlds and documents\<close>

definition noon :: datetime where
  "noon = \<lparr>year = 2024, month = 3, day = 1, hour = 12, minute = 0, second = 0,
            microsecond = 0, tzinfo = None\<rparr>"

text \<open>A world in which every request fails to connect.\<close>

definition world_offline :: world where
  "world_offline =
     \<lparr>USE_TZ = True, session_get = (\<lambda>addr timeout k. Inl (RequestException ''connection refused'')),
      wall_clock = (\<lambda>k. noon), rng = (\<lambda>k. 0), gets = 0, clock_reads = 0, draws = 0,
      slept = [], log_records = []\<rparr>"








text \<open>Hindustan Times containers: a complete one and one without a summary element.\<close>

definition ht_item_full :: node where
  "ht_item_full =
     Tag ''div'' [(''class'', ''cartHolder listView'')]
       [Tag ''h3'' [(''class'', ''hdg3'')]
          [Tag ''a'' [(''href'', ''/india/budget'')] [NavigableString ''Budget session begins'']],
        Tag ''p'' [(''class'', ''anch'')] [NavigableString ''Parliament meets today.'']]"

definition final_link :: node where
  "final_link = Tag ''a'' [(''href'', ''/cricket/final'')] [NavigableString ''India wins the final'']"

definition final_heading :: node where
  "final_heading = Tag ''h3'' [(''class'', ''hdg3'')] [final_link]"

definition ht_item_no_summary :: node where
  "ht_item_no_summary = Tag ''div'' [(''class'', ''cartHolder'')] [final_heading]"

definition ht_page :: node where
  "ht_page =
     Tag ''[document]'' []
       [Tag ''html'' [] [Tag ''body'' [] [ht_item_full, ht_item_no_summary]]]"




section \<open>Properties\<close>

subsection \<open>The retry loop of \<^verbatim>\<open>_make_request\<close>\<close>

lemma raise_for_status_is_RequestException:
  "raise_for_status r = Inl e \<Longrightarrow> is_RequestException e"
  by (auto simp: raise_for_status_def split: if_splits)


text \<open>One round of the loop, in terms of what the attempt came to.\<close>

lemma make_request_attempts_step:
  "make_request_attempts addr t (a # as) w =
     (case tried addr t w of
        Inr response \<Rightarrow> (Inr (Some response), w\<lparr>gets := gets w + 1\<rparr>)
      | Inl e \<Rightarrow>
          if is_RequestException e then
            (let w2 = logger WARNING (''Request attempt '' @ str_nat (a + 1) @ '' failed for '' @ addr
                            @ '': '' @ str_exn e) (w\<lparr>gets := gets w + 1\<rparr>)
             in if a < max_retries - 1 then
                  make_request_attempts addr t as
                    (time_sleep (real (backoff a) + unit_draw w (draws w)) (w2\<lparr>draws := draws w + 1\<rparr>))
                else (Inr None, logger ERROR (''All retry attempts failed for '' @ addr) w2))
          else (Inl e, w\<lparr>gets := gets w + 1\<rparr>))"
  by (simp add: tried_def session_get_call_def random_uniform_def unit_draw_def logger_def Let_def
      split: sum.splits)

declare make_request_attempts.simps [simp del]

lemma failed_attempt_tried:
  assumes "attempt_fails w addr timeout (gets w)"
  shows "\<exists>e. tried addr timeout w = Inl e \<and> is_RequestException e"
  using assms
  by (auto simp: attempt_fails_def tried_def ok_def split: sum.splits
      dest: raise_for_status_is_RequestException)

lemma failed_attempt_step:
  assumes "attempt_fails w addr timeout (gets w)"
  shows "\<exists>msg. make_request_attempts addr timeout (attempt # rest) w =
     (if attempt < max_retries - 1 then
            make_request_attempts addr timeout rest
              (time_sleep (real (backoff attempt) + unit_draw w (draws w))
                 ((logger WARNING msg (w\<lparr>gets := gets w + 1\<rparr>))\<lparr>draws := draws w + 1\<rparr>))
         else (Inr None, logger ERROR (''All retry attempts failed for '' @ addr)
                 (logger WARNING msg (w\<lparr>gets := gets w + 1\<rparr>))))"
proof -
  obtain e where e: "tried addr timeout w = Inl e" "is_RequestException e"
    using failed_attempt_tried [OF assms] by blast
  show ?thesis
    by (rule exI [of _ "''Request attempt '' @ str_nat (attempt + 1) @ '' failed for '' @ addr
                            @ '': '' @ str_exn e"])
       (simp add: make_request_attempts_step e Let_def)
qed

lemma range_max_retries: "[0..<max_retries] = [0, 1, 2]"
  by (simp add: max_retries_def upt_rec)

lemma unit_draw_bounds: "0 \<le> unit_draw w k \<and> unit_draw w k < 1"
proof -
  have "rng w k mod 2 ^ 53 < 2 ^ 53" by simp
  then have "real (rng w k mod 2 ^ 53) < real (2 ^ 53)" by (simp only: of_nat_less_iff)
  then show ?thesis by (simp add: unit_draw_def)
qed

lemma backoff_strict: "backoff a < backoff (Suc a)"
  by (simp add: backoff_def base_delay_def)

text \<open>
  C1. When every attempt on a URL fails at transport level, \<^verbatim>\<open>_make_request\<close> returns
  \<^verbatim>\<open>None\<close> (it does not raise), after exactly three calls of \<^verbatim>\<open>session.get\<close> and two
  sleeps. The sleeps last \<open>backoff 0\<close> and \<open>backoff 1\<close> seconds plus the jitter drawn for
  each; without the jitter the second is longer than the first (1 second, then 2), and with
  it as well when the jitter is taken as a real number in [0, 1).
\<close>

theorem make_request_gives_up:
  assumes fails: "\<forall>k. attempt_fails w addr timeout k"
  shows "fst (make_request addr timeout w) = Inr None
       \<and> gets (snd (make_request addr timeout w)) = gets w + 3
       \<and> slept (snd (make_request addr timeout w))
           = slept w @ [real (backoff 0) + unit_draw w (draws w),
                        real (backoff 1) + unit_draw w (draws w + 1)]
       \<and> backoff 0 < backoff 1
       \<and> real (backoff 0) + unit_draw w (draws w) < real (backoff 1) + unit_draw w (draws w + 1)"
proof -
  have all: "\<And>w'. session_get w' = session_get w \<Longrightarrow> attempt_fails w' addr timeout (gets w')"
    using fails by (simp add: attempt_fails_def)
  obtain m1 where s1: "make_request_attempts addr timeout [0, 1, 2] w =
      make_request_attempts addr timeout [1, 2]
        (time_sleep (real (backoff 0) + unit_draw w (draws w))
                 ((logger WARNING m1 (w\<lparr>gets := gets w + 1\<rparr>))\<lparr>draws := draws w + 1\<rparr>))"
    (is "_ = make_request_attempts _ _ _ ?w1")
    using failed_attempt_step [OF all [of w, OF refl], of 0 "[1, 2]"]
    by (auto simp: max_retries_def)
  have f1: "session_get ?w1 = session_get w" "rng ?w1 = rng w" "gets ?w1 = gets w + 1"
    "draws ?w1 = draws w + 1" "slept ?w1 = slept w @ [real (backoff 0) + unit_draw w (draws w)]"
    by (simp_all add: logger_def time_sleep_def)
  obtain m2 where s2: "make_request_attempts addr timeout [1, 2] ?w1 =
      make_request_attempts addr timeout [2]
        (time_sleep (real (backoff 1) + unit_draw ?w1 (draws ?w1))
                 ((logger WARNING m2 (?w1\<lparr>gets := gets ?w1 + 1\<rparr>))\<lparr>draws := draws ?w1 + 1\<rparr>))"
    (is "_ = make_request_attempts _ _ _ ?w2")
    using failed_attempt_step [OF all [of ?w1, OF f1(1)], of 1 "[2]"]
    by (auto simp: max_retries_def)
  have f2: "session_get ?w2 = session_get w" "gets ?w2 = gets w + 2"
    "slept ?w2 = slept w @ [real (backoff 0) + unit_draw w (draws w),
                            real (backoff 1) + unit_draw w (draws w + 1)]"
    by (simp_all add: logger_def time_sleep_def unit_draw_def)
  obtain m3 where s3: "make_request_attempts addr timeout [2] ?w2 =
      (Inr None, logger ERROR (''All retry attempts failed for '' @ addr)
                 (logger WARNING m3 (?w2\<lparr>gets := gets ?w2 + 1\<rparr>)))"
    (is "_ = (_, ?w3)")
    using failed_attempt_step [OF all [of ?w2, OF f2(1)], of 2 "[]"]
    by (auto simp: max_retries_def)
  have f3: "gets ?w3 = gets w + 3"
    "slept ?w3 = slept w @ [real (backoff 0) + unit_draw w (draws w),
                            real (backoff 1) + unit_draw w (draws w + 1)]"
    using f2 by (simp_all add: logger_def)
  have j: "real (backoff 0) + unit_draw w (draws w) < real (backoff 1) + unit_draw w (draws w + 1)"
    using unit_draw_bounds [of w "draws w"] unit_draw_bounds [of w "draws w + 1"]
    by (simp add: backoff_def base_delay_def)
  show ?thesis
    unfolding make_request_def range_max_retries s1 s2 s3
    using f3 j backoff_strict [of 0] by simp
qed

theorem make_request_gives_up_witness:
  "(\<forall>k. attempt_fails world_offline ''https://inshorts.com/en/read'' 10 k)
   \<and> fst (make_request ''https://inshorts.com/en/read'' 10 world_offline) = Inr None
   \<and> gets (snd (make_request ''https://inshorts.com/en/read'' 10 world_offline)) = 3
   \<and> slept (snd (make_request ''https://inshorts.com/en/read'' 10 world_offline)) = [1, 2]"
proof -
  have h: "\<forall>k. attempt_fails world_offline ''https://inshorts.com/en/read'' 10 k"
    by (simp add: attempt_fails_def world_offline_def)
  show ?thesis
    using h make_request_gives_up [OF h]
    by (simp add: world_offline_def unit_draw_def backoff_def base_delay_def)
qed








subsection \<open>Date parsing\<close>

lemma strptime_raises_ValueError: "strptime s f = Inl e \<Longrightarrow> is_ValueError e"
  by (auto simp: strptime_def make_datetime_def split: list.splits if_splits prod.splits)

lemma strptime_midnight_naive:
  "strptime s f = Inr dt \<Longrightarrow>
     hour dt = 0 \<and> minute dt = 0 \<and> second dt = 0 \<and> microsecond dt = 0 \<and> tzinfo dt = None
     \<and> 1 \<le> year dt \<and> year dt \<le> 9999 \<and> 1 \<le> month dt \<and> month dt \<le> 12
     \<and> 1 \<le> day dt \<and> day dt \<le> days_in_month (year dt) (month dt)"
  by (auto simp: strptime_def make_datetime_def split: list.splits if_splits prod.splits)

text \<open>The formats are tried in the order of the list; the first that parses gives the result.\<close>

lemma parse_date_chain:
  "fst (parse_date s w) =
     Inr (case strptime s ''%Y-%m-%d'' of Inr dt \<Rightarrow> dt
          | Inl _ \<Rightarrow> (case strptime s ''%d/%m/%Y'' of Inr dt \<Rightarrow> dt
          | Inl _ \<Rightarrow> (case strptime s ''%m/%d/%Y'' of Inr dt \<Rightarrow> dt
          | Inl _ \<Rightarrow> fst (timezone_now w))))"
  by (auto simp: parse_date_def date_formats_def Let_def split: sum.splits prod.splits
      dest: strptime_raises_ValueError)

lemma parse_date_first_match:
  assumes "f \<in> set date_formats" and "strptime s f = Inr d"
  shows "\<exists>f' dt. f' \<in> set date_formats \<and> strptime s f' = Inr dt \<and> fst (parse_date s w) = Inr dt"
proof -
  define r where "r = (case strptime s ''%Y-%m-%d'' of Inr dt \<Rightarrow> dt
          | Inl _ \<Rightarrow> (case strptime s ''%d/%m/%Y'' of Inr dt \<Rightarrow> dt
          | Inl _ \<Rightarrow> (case strptime s ''%m/%d/%Y'' of Inr dt \<Rightarrow> dt
          | Inl _ \<Rightarrow> fst (timezone_now w))))"
  have p: "fst (parse_date s w) = Inr r" unfolding r_def by (rule parse_date_chain)
  from assms(1) have f: "f = ''%Y-%m-%d'' \<or> f = ''%d/%m/%Y'' \<or> f = ''%m/%d/%Y''"
    by (simp add: date_formats_def)
  have "strptime s ''%Y-%m-%d'' = Inr r \<or> strptime s ''%d/%m/%Y'' = Inr r
        \<or> strptime s ''%m/%d/%Y'' = Inr r"
    using f assms(2) unfolding r_def by (auto split: sum.splits)
  moreover have "''%Y-%m-%d'' \<in> set date_formats" "''%d/%m/%Y'' \<in> set date_formats"
    "''%m/%d/%Y'' \<in> set date_formats"
    by (simp_all add: date_formats_def)
  ultimately show ?thesis using p by blast
qed

lemma parse_date_no_match:
  assumes "\<forall>f \<in> set date_formats. \<forall>d. strptime s f \<noteq> Inr d"
  shows "fst (parse_date s w) = Inr (fst (timezone_now w))"
proof -
  have "\<And>d. strptime s ''%Y-%m-%d'' \<noteq> Inr d" "\<And>d. strptime s ''%d/%m/%Y'' \<noteq> Inr d"
    "\<And>d. strptime s ''%m/%d/%Y'' \<noteq> Inr d"
    using assms by (simp_all add: date_formats_def)
  then show ?thesis
    by (simp add: parse_date_chain split: sum.splits)
qed

text \<open>The formats on three inputs: an ambiguous date, an American date, no date.\<close>

lemma strptime_ambiguous:
  "strptime ''01/02/2020'' ''%Y-%m-%d'' = Inl (ValueError ''time data does not match format'')"
  "strptime ''01/02/2020'' ''%d/%m/%Y''
     = Inr \<lparr>year = 2020, month = 2, day = 1, hour = 0, minute = 0, second = 0,
            microsecond = 0, tzinfo = None\<rparr>"
  "strptime ''01/02/2020'' ''%m/%d/%Y''
     = Inr \<lparr>year = 2020, month = 1, day = 2, hour = 0, minute = 0, second = 0,
            microsecond = 0, tzinfo = None\<rparr>"
  by code_simp+

lemma strptime_american:
  "strptime ''01/13/2020'' ''%Y-%m-%d'' = Inl (ValueError ''time data does not match format'')"
  "strptime ''01/13/2020'' ''%d/%m/%Y'' = Inl (ValueError ''time data does not match format'')"
  "strptime ''01/13/2020'' ''%m/%d/%Y''
     = Inr \<lparr>year = 2020, month = 1, day = 13, hour = 0, minute = 0, second = 0,
            microsecond = 0, tzinfo = None\<rparr>"
  by code_simp+

lemma strptime_no_date:
  "strptime ''yesterday'' ''%Y-%m-%d'' = Inl (ValueError ''time data does not match format'')"
  "strptime ''yesterday'' ''%d/%m/%Y'' = Inl (ValueError ''time data does not match format'')"
  "strptime ''yesterday'' ''%m/%d/%Y'' = Inl (ValueError ''time data does not match format'')"
  by code_simp+

text \<open>
  C3. \<^verbatim>\<open>_parse_date\<close> returns, and never raises: the result of \<^verbatim>\<open>%Y-%m-%d\<close> if that
  format parses the input, else that of \<^verbatim>\<open>%d/%m/%Y\<close>, else that of \<^verbatim>\<open>%m/%d/%Y\<close>, else
  the current time. The string 01/02/2020, which the last format reads as 2 January, is
  read by the earlier one as 1 February.
\<close>

theorem parse_date_priority:
  "fst (parse_date s w) =
     Inr (case strptime s ''%Y-%m-%d'' of Inr dt \<Rightarrow> dt
          | Inl _ \<Rightarrow> (case strptime s ''%d/%m/%Y'' of Inr dt \<Rightarrow> dt
          | Inl _ \<Rightarrow> (case strptime s ''%m/%d/%Y'' of Inr dt \<Rightarrow> dt
          | Inl _ \<Rightarrow> fst (timezone_now w))))
   \<and> date_formats = [''%Y-%m-%d'', ''%d/%m/%Y'', ''%m/%d/%Y'']
   \<and> strptime ''01/02/2020'' ''%m/%d/%Y''
       = Inr \<lparr>year = 2020, month = 1, day = 2, hour = 0, minute = 0, second = 0,
              microsecond = 0, tzinfo = None\<rparr>
   \<and> fst (parse_date ''01/02/2020'' w)
       = Inr \<lparr>year = 2020, month = 2, day = 1, hour = 0, minute = 0, second = 0,
              microsecond = 0, tzinfo = None\<rparr>"
  by (simp add: parse_date_chain strptime_ambiguous date_formats_def)

theorem parse_date_priority_witness:
  "fst (parse_date ''01/13/2020'' world_offline)
     = Inr \<lparr>year = 2020, month = 1, day = 13, hour = 0, minute = 0, second = 0,
            microsecond = 0, tzinfo = None\<rparr>
   \<and> fst (parse_date ''yesterday'' world_offline) = Inr (noon\<lparr>tzinfo := Some ''UTC''\<rparr>)"
  using parse_date_priority [of "''01/13/2020''" world_offline]
    parse_date_priority [of "''yesterday''" world_offline]
  by (simp add: strptime_american strptime_no_date timezone_now_def world_offline_def)

text \<open>\<^verbatim>\<open>_parse_date\<close> in a world like \<open>world_offline\<close> but with \<^verbatim>\<open>USE_TZ\<close> off.\<close>

lemma parse_date_tz_off:
  "fst (parse_date ''yesterday'' (world_offline\<lparr>USE_TZ := False\<rparr>)) = Inr noon"
  "fst (parse_date ''01/02/2020'' (world_offline\<lparr>USE_TZ := False\<rparr>))
     = Inr \<lparr>year = 2020, month = 2, day = 1, hour = 0, minute = 0, second = 0,
            microsecond = 0, tzinfo = None\<rparr>"
  by (simp_all add: parse_date_chain strptime_no_date strptime_ambiguous timezone_now_def
      world_offline_def noon_def)

text \<open>
  C10, as the code has it. With the setting \<^verbatim>\<open>USE_TZ\<close> off, \<^verbatim>\<open>timezone.now()\<close> is
  \<^verbatim>\<open>datetime.now(tz=None)\<close>: on an input that no format parses \<^verbatim>\<open>_parse_date\<close> then
  returns the reading of the clock with no \<^verbatim>\<open>tzinfo\<close>, a naive value like the one it
  returns on an input that a format parses. The two branches do not differ in awareness there.
\<close>

theorem parse_date_fallback_naive:
  "map (strptime ''yesterday'') date_formats
     = replicate 3 (Inl (ValueError ''time data does not match format''))
   \<and> fst (parse_date ''yesterday'' (world_offline\<lparr>USE_TZ := False\<rparr>)) = Inr noon
   \<and> tzinfo noon = None
   \<and> fst (parse_date ''01/02/2020'' (world_offline\<lparr>USE_TZ := False\<rparr>))
       = Inr \<lparr>year = 2020, month = 2, day = 1, hour = 0, minute = 0, second = 0,
              microsecond = 0, tzinfo = None\<rparr>"
  by (simp add: parse_date_tz_off date_formats_def strptime_no_date numeral_3_eq_3 noon_def)

text \<open>
  C10, amended. When one of the three formats parses the input, \<^verbatim>\<open>_parse_date\<close> returns
  what \<^verbatim>\<open>strptime\<close> made of the input under one of them: the parsed date at 00:00:00
  with no \<^verbatim>\<open>tzinfo\<close>, a naive value. When none does, it returns the reading of the clock
  as \<^verbatim>\<open>timezone.now()\<close> gives it: with \<^verbatim>\<open>tzinfo\<close> UTC, an aware value, when the Django
  setting \<^verbatim>\<open>USE_TZ\<close> is on, and with no \<^verbatim>\<open>tzinfo\<close> when it is off. So the result of the
  fallback branch is aware, and differs in awareness from the match branch, exactly when
  \<^verbatim>\<open>USE_TZ\<close> is on.
\<close>

theorem parse_date_awareness:
  "(f \<in> set date_formats \<and> strptime s f = Inr d \<longrightarrow>
      (\<exists>f' dt. f' \<in> set date_formats \<and> strptime s f' = Inr dt \<and> fst (parse_date s w) = Inr dt
         \<and> hour dt = 0 \<and> minute dt = 0 \<and> second dt = 0 \<and> microsecond dt = 0
         \<and> tzinfo dt = None))
   \<and> ((\<forall>f \<in> set date_formats. \<forall>d. strptime s f \<noteq> Inr d) \<longrightarrow>
      fst (parse_date s w)
        = Inr ((wall_clock w (clock_reads w))\<lparr>tzinfo := (if USE_TZ w then Some ''UTC'' else None)\<rparr>))
   \<and> ((\<forall>f \<in> set date_formats. \<forall>d. strptime s f \<noteq> Inr d) \<longrightarrow>
      (\<exists>dt. fst (parse_date s w) = Inr dt
         \<and> (USE_TZ w \<longrightarrow> tzinfo dt = Some ''UTC'')
         \<and> (\<not> USE_TZ w \<longrightarrow> tzinfo dt = None)
         \<and> (tzinfo dt \<noteq> None \<longleftrightarrow> USE_TZ w)))"
proof (intro conjI impI)
  assume a: "f \<in> set date_formats \<and> strptime s f = Inr d"
  then obtain f' dt where f': "f' \<in> set date_formats" "strptime s f' = Inr dt"
    "fst (parse_date s w) = Inr dt"
    using parse_date_first_match [of f s d w] by blast
  from strptime_midnight_naive [OF f'(2)] f'
  show "\<exists>f' dt. f' \<in> set date_formats \<and> strptime s f' = Inr dt \<and> fst (parse_date s w) = Inr dt
         \<and> hour dt = 0 \<and> minute dt = 0 \<and> second dt = 0 \<and> microsecond dt = 0
         \<and> tzinfo dt = None"
    by blast
next
  assume n: "\<forall>f \<in> set date_formats. \<forall>d. strptime s f \<noteq> Inr d"
  then show "fst (parse_date s w)
        = Inr ((wall_clock w (clock_reads w))\<lparr>tzinfo := (if USE_TZ w then Some ''UTC'' else None)\<rparr>)"
    by (simp add: parse_date_no_match timezone_now_def)
next
  assume n: "\<forall>f \<in> set date_formats. \<forall>d. strptime s f \<noteq> Inr d"
  then show "\<exists>dt. fst (parse_date s w) = Inr dt
         \<and> (USE_TZ w \<longrightarrow> tzinfo dt = Some ''UTC'')
         \<and> (\<not> USE_TZ w \<longrightarrow> tzinfo dt = None)
         \<and> (tzinfo dt \<noteq> None \<longleftrightarrow> USE_TZ w)"
    by (simp add: parse_date_no_match timezone_now_def)
qed

theorem parse_date_awareness_witness:
  "''%d/%m/%Y'' \<in> set date_formats
   \<and> fst (parse_date ''01/02/2020'' world_offline)
       = Inr \<lparr>year = 2020, month = 2, day = 1, hour = 0, minute = 0, second = 0,
              microsecond = 0, tzinfo = None\<rparr>
   \<and> map (strptime ''yesterday'') date_formats
       = replicate 3 (Inl (ValueError ''time data does not match format''))
   \<and> USE_TZ world_offline
   \<and> fst (parse_date ''yesterday'' world_offline) = Inr (noon\<lparr>tzinfo := Some ''UTC''\<rparr>)
   \<and> fst (parse_date ''yesterday'' (world_offline\<lparr>USE_TZ := False\<rparr>)) = Inr noon"
proof -
  have m: "''%d/%m/%Y'' \<in> set date_formats" by (simp add: date_formats_def)
  have n: "\<forall>f \<in> set date_formats. \<forall>d. strptime ''yesterday'' f \<noteq> Inr d"
    by (simp add: date_formats_def strptime_no_date)
  have u: "USE_TZ world_offline" by (simp add: world_offline_def)
  have a: "fst (parse_date ''01/02/2020'' world_offline)
       = Inr \<lparr>year = 2020, month = 2, day = 1, hour = 0, minute = 0, second = 0,
              microsecond = 0, tzinfo = None\<rparr>"
    by (simp add: parse_date_chain strptime_ambiguous)
  from parse_date_awareness [of _ "''yesterday''" _ world_offline] n
  have b: "fst (parse_date ''yesterday'' world_offline) = Inr (noon\<lparr>tzinfo := Some ''UTC''\<rparr>)"
    by (simp add: world_offline_def)
  from parse_date_awareness [of _ "''yesterday''" _ "world_offline\<lparr>USE_TZ := False\<rparr>"] n
  have c: "fst (parse_date ''yesterday'' (world_offline\<lparr>USE_TZ := False\<rparr>)) = Inr noon"
    by (simp add: world_offline_def noon_def)
  have l: "map (strptime ''yesterday'') date_formats
       = replicate 3 (Inl (ValueError ''time data does not match format''))"
    by (simp add: date_formats_def strptime_no_date numeral_3_eq_3)
  show ?thesis
    using m a l u b c parse_date_awareness [of "''%d/%m/%Y''" "''01/02/2020''" _ world_offline]
    by simp
qed

subsection \<open>Extraction of one container\<close>












subsection \<open>The loop over the containers\<close>




subsection \<open>\<^verbatim>\<open>scrape_articles\<close>\<close>












lemma ht_page_fields:
  "List.map_filter HT_fields (take 20 (find_all ht_page ''div'' [(''class'', ''cartHolder'')]))
   = [(''Budget session begins'', ''Parliament meets today.'', ''/india/budget'', ''hindustan_times''),
      (''India wins the final'', ''India wins the final'', ''/cricket/final'', ''hindustan_times'')]"
  by code_simp











subsection \<open>The registry\<close>




subsection \<open>The mock scrapers\<close>















end
